theory Spec2Isabelle
  imports Main "HOL-Library.Word"
begin

section \<open>The memo cache of utils/cache/base.py\<close>

text \<open>
  \<^verbatim>\<open>MemoCache\<close> keeps pickled values in a memory tier (a \<^verbatim>\<open>cachetools.TTLCache\<close>) and,
  when \<^verbatim>\<open>persist == "disk"\<close>, in one file per key. The methods are embedded as functions
  from a state to a result and a new state. An exception is a result \<open>Inl e\<close>.

  What lies outside the repository is a parameter of the model, collected in the record
  \<open>cache_env\<close>: the abstract method \<^verbatim>\<open>query\<close>, \<^verbatim>\<open>pickle.dumps\<close> and
  \<^verbatim>\<open>pickle.loads\<close>, the environment variable \<^verbatim>\<open>CACHE_PATH\<close>, the working directory, and
  for every path whether the file system lets a read, a write, a removal or a directory
  creation fail there.

  The memory tier is modelled at the configuration the repository instantiates
  (\<^verbatim>\<open>S3QueryCache()\<close>: \<^verbatim>\<open>ttl\<close> and \<^verbatim>\<open>max_entries\<close> both \<^verbatim>\<open>math.inf\<close>), where a
  \<^verbatim>\<open>TTLCache\<close> neither expires nor evicts: an insertion-ordered dictionary from keys to
  bytes. Locks are not modelled: every method runs alone.
\<close>

subsection \<open>Exceptions, events and the state\<close>

type_synonym bytes = "8 word list"

datatype exn =
  CacheKeyNotFoundError string
  | CacheError string
  | PicklingError
  | UnpicklingError
  | ValueError
  | OSError
  | OtherException string

text \<open>The calls that leave the cache object, in the order they are made.\<close>

datatype event =
  Query string
  | DiskRead string
  | DiskWrite string
  | DiskRemove string
  | Makedirs string

text \<open>
  How a failed \<^verbatim>\<open>streamlit_write\<close> ends: with \<^verbatim>\<open>util.Error\<close> (an \<^verbatim>\<open>OSError\<close> while
  opening or writing) or with another exception. Either carries what the failed write left
  at the path: \<open>None\<close> for no file, \<open>Some bs\<close> for a file holding \<open>bs\<close>.
\<close>

datatype write_fault =
  UtilError "bytes option"
  | OtherWriteError string "bytes option"

record 'v cache_env =
  cache_name :: string
  persist :: "string option"
  query :: "string \<Rightarrow> exn + 'v"
  pickle_dumps :: "'v \<Rightarrow> exn + bytes"
  pickle_loads :: "bytes \<Rightarrow> exn + 'v"
  CACHE_PATH :: "string option"
  getcwd :: string
  read_fault :: "string \<Rightarrow> bool"
  write_fault :: "string \<Rightarrow> write_fault option"
  remove_fault :: "string \<Rightarrow> bool"
  makedirs_fault :: "string \<Rightarrow> bool"

record state =
  mem_cache :: "(string \<times> bytes) list"
  files :: "string \<rightharpoonup> bytes"
  dirs :: "string set"
  trace :: "event list"

definition emit :: "event \<Rightarrow> state \<Rightarrow> state" where
  "emit ev s = s\<lparr>trace := trace s @ [ev]\<rparr>"

subsection \<open>Strings and paths (Python's str and posixpath)\<close>

definition startswith :: "string \<Rightarrow> string \<Rightarrow> bool" where
  "startswith s p = (take (length p) s = p)"

definition endswith :: "string \<Rightarrow> string \<Rightarrow> bool" where
  "endswith s p = (length p \<le> length s \<and> drop (length s - length p) s = p)"

text \<open>\<^verbatim>\<open>s.split(c)\<close> for a separator of one character: never the empty list.\<close>

fun split_sep :: "char \<Rightarrow> string \<Rightarrow> string list" where
  "split_sep c [] = [[]]"
| "split_sep c (x # xs) =
     (if x = c then [] # split_sep c xs
      else (case split_sep c xs of
              [] \<Rightarrow> [[x]]
            | w # ws \<Rightarrow> (x # w) # ws))"

text \<open>\<^verbatim>\<open>s.split(c, 1)\<close>: cut at the first separator, if there is one.\<close>

definition split_maxsplit1 :: "char \<Rightarrow> string \<Rightarrow> string list" where
  "split_maxsplit1 c s =
     (if c \<in> set s
      then [takeWhile (\<lambda>x. x \<noteq> c) s, tl (dropWhile (\<lambda>x. x \<noteq> c) s)]
      else [s])"

text \<open>\<^verbatim>\<open>sep.join(xs)\<close>.\<close>

fun join_sep :: "string \<Rightarrow> string list \<Rightarrow> string" where
  "join_sep sep [] = []"
| "join_sep sep [x] = x"
| "join_sep sep (x # y # ys) = x @ sep @ join_sep sep (y # ys)"

text \<open>\<^verbatim>\<open>os.path.join(a, b)\<close> of posixpath, for two arguments.\<close>

definition path_join :: "string \<Rightarrow> string \<Rightarrow> string" where
  "path_join a b =
     (if startswith b ''/'' then b
      else if a = [] \<or> endswith a ''/'' then a @ b
      else a @ ''/'' @ b)"

text \<open>One round of the loop of \<^verbatim>\<open>posixpath.normpath\<close> over the components.\<close>

definition normpath_step :: "nat \<Rightarrow> string list \<Rightarrow> string \<Rightarrow> string list" where
  "normpath_step initial_slashes new_comps part =
     (if part = [] \<or> part = ''.'' then new_comps
      else if part \<noteq> ''..'' \<or> (initial_slashes = 0 \<and> new_comps = [])
              \<or> (new_comps \<noteq> [] \<and> last new_comps = ''..'')
      then new_comps @ [part]
      else if new_comps \<noteq> [] then butlast new_comps
      else new_comps)"

definition normpath :: "string \<Rightarrow> string" where
  "normpath path =
     (if path = [] then ''.''
      else
        let initial_slashes =
              (if startswith path ''/''
               then (if startswith path ''//'' \<and> \<not> startswith path ''///'' then 2 else 1)
               else (0::nat));
            comps = foldl (normpath_step initial_slashes) [] (split_sep CHR ''/'' path);
            joined = join_sep ''/'' comps;
            path' = (if initial_slashes \<noteq> 0
                     then replicate initial_slashes CHR ''/'' @ joined else joined)
        in if path' = [] then ''.'' else path')"

text \<open>\<^verbatim>\<open>os.path.abspath(path)\<close>, with the working directory as an argument.\<close>

definition abspath :: "string \<Rightarrow> string \<Rightarrow> string" where
  "abspath cwd path =
     (if \<not> startswith path ''/'' then normpath (path_join cwd path) else normpath path)"

subsection \<open>The file system calls\<close>

text \<open>
  \<^verbatim>\<open>os.path.exists\<close>, \<^verbatim>\<open>os.makedirs\<close>, \<^verbatim>\<open>streamlit_read\<close> and \<^verbatim>\<open>os.remove\<close>.
  The file system is keyed by absolute normalised paths.
\<close>

definition path_exists :: "'v cache_env \<Rightarrow> state \<Rightarrow> string \<Rightarrow> bool" where
  "path_exists E s p =
     (abspath (getcwd E) p \<in> dirs s \<or> files s (abspath (getcwd E) p) \<noteq> None)"

definition makedirs :: "'v cache_env \<Rightarrow> string \<Rightarrow> state \<Rightarrow> (exn + unit) \<times> state" where
  "makedirs E p s =
     (let s1 = emit (Makedirs p) s in
      if makedirs_fault E p then (Inl OSError, s1)
      else (Inr (), s1\<lparr>dirs := insert (abspath (getcwd E) p) (dirs s1)\<rparr>))"

datatype read_outcome = ReadOk bytes | ReadFileNotFound | ReadFailed

definition streamlit_read :: "'v cache_env \<Rightarrow> string \<Rightarrow> state \<Rightarrow> read_outcome" where
  "streamlit_read E path s =
     (if read_fault E path then ReadFailed
      else (case files s path of None \<Rightarrow> ReadFileNotFound | Some bs \<Rightarrow> ReadOk bs))"

datatype remove_outcome = Removed | RemoveFileNotFound | RemoveOSError

definition os_remove :: "'v cache_env \<Rightarrow> string \<Rightarrow> state \<Rightarrow> remove_outcome \<times> state" where
  "os_remove E path s =
     (let s1 = emit (DiskRemove path) s in
      if remove_fault E path then (RemoveOSError, s1)
      else (case files s1 path of
              None \<Rightarrow> (RemoveFileNotFound, s1)
            | Some bs \<Rightarrow> (Removed, s1\<lparr>files := (files s1)(path := None)\<rparr>)))"

subsection \<open>The methods of MemoCache\<close>

text \<open>\<^verbatim>\<open>_get_file_path\<close>: a static method; it creates the directory of the kind when missing.\<close>

definition get_file_path :: "'v cache_env \<Rightarrow> string \<Rightarrow> state \<Rightarrow> (exn + string) \<times> state" where
  "get_file_path E value_key s =
     (case split_maxsplit1 CHR '':'' value_key of
        [dir, file_name] \<Rightarrow>
          (let cache_dir =
                 path_join (case CACHE_PATH E of None \<Rightarrow> ''./cache'' | Some r \<Rightarrow> r) dir;
               path = abspath (getcwd E) (path_join cache_dir (file_name @ ''.memo''))
           in if \<not> path_exists E s cache_dir
              then (case makedirs E cache_dir s of
                      (Inl e, s1) \<Rightarrow> (Inl e, s1)
                    | (Inr u, s1) \<Rightarrow> (Inr path, s1))
              else (Inr path, s))
      | _ \<Rightarrow> (Inl ValueError, s))"

text \<open>\<^verbatim>\<open>_read_from_mem_cache\<close>.\<close>

definition read_from_mem_cache :: "string \<Rightarrow> state \<Rightarrow> exn + bytes" where
  "read_from_mem_cache key s =
     (case map_of (mem_cache s) key of
        Some entry \<Rightarrow> Inr entry
      | None \<Rightarrow> Inl (CacheKeyNotFoundError ''Key not found in mem cache''))"

text \<open>\<^verbatim>\<open>_write_to_mem_cache\<close>: the key moves to the end of the cache's order.\<close>

definition write_to_mem_cache :: "string \<Rightarrow> bytes \<Rightarrow> state \<Rightarrow> state" where
  "write_to_mem_cache key pickled_value s =
     s\<lparr>mem_cache := filter (\<lambda>kv. fst kv \<noteq> key) (mem_cache s) @ [(key, pickled_value)]\<rparr>"

text \<open>\<^verbatim>\<open>_read_from_disk_cache\<close>.\<close>

definition read_from_disk_cache :: "'v cache_env \<Rightarrow> string \<Rightarrow> state \<Rightarrow> (exn + bytes) \<times> state" where
  "read_from_disk_cache E key s =
     (case get_file_path E key s of
        (Inl e, s1) \<Rightarrow> (Inl e, s1)
      | (Inr path, s1) \<Rightarrow>
          (let s2 = emit (DiskRead path) s1 in
           case streamlit_read E path s2 of
             ReadOk v \<Rightarrow> (Inr v, s2)
           | ReadFileNotFound \<Rightarrow> (Inl (CacheKeyNotFoundError ''Key not found in disk cache''), s2)
           | ReadFailed \<Rightarrow> (Inl (CacheError ''Unable to read from cache''), s2)))"

text \<open>\<^verbatim>\<open>_write_to_disk_cache\<close>.\<close>

definition write_to_disk_cache :: "'v cache_env \<Rightarrow> string \<Rightarrow> bytes \<Rightarrow> state \<Rightarrow> (exn + unit) \<times> state" where
  "write_to_disk_cache E key pickled_value s =
     (case get_file_path E key s of
        (Inl e, s1) \<Rightarrow> (Inl e, s1)
      | (Inr path, s1) \<Rightarrow>
          (let s2 = emit (DiskWrite path) s1 in
           case write_fault E path of
             None \<Rightarrow> (Inr (), s2\<lparr>files := (files s2)(path \<mapsto> pickled_value)\<rparr>)
           | Some (UtilError left) \<Rightarrow>
               (let s3 = s2\<lparr>files := (files s2)(path := left)\<rparr>;
                    s4 = snd (os_remove E path s3)
                in (Inl (CacheError ''Unable to write to cache''), s4))
           | Some (OtherWriteError msg left) \<Rightarrow>
               (Inl (OtherException msg), s2\<lparr>files := (files s2)(path := left)\<rparr>)))"


text \<open>\<^verbatim>\<open>_write_value\<close>.\<close>

definition write_value :: "'v cache_env \<Rightarrow> string \<Rightarrow> 'v \<Rightarrow> state \<Rightarrow> (exn + bytes) \<times> state" where
  "write_value E key v s =
     (case pickle_dumps E v of
        Inl e \<Rightarrow>
          (if e = PicklingError then (Inl (CacheError (''Failed to pickle '' @ key)), s)
           else (Inl e, s))
      | Inr pickled_value \<Rightarrow>
          (let s1 = write_to_mem_cache key pickled_value s in
           if persist E = Some ''disk''
           then (case write_to_disk_cache E key pickled_value s1 of
                   (Inl e, s2) \<Rightarrow> (Inl e, s2)
                 | (Inr u, s2) \<Rightarrow> (Inr pickled_value, s2))
           else (Inr pickled_value, s1)))"

text \<open>\<^verbatim>\<open>read_value\<close>: the first \<^verbatim>\<open>try\<close> finds the pickled bytes, the second unpickles them.\<close>

definition read_value :: "'v cache_env \<Rightarrow> string \<Rightarrow> state \<Rightarrow> (exn + 'v) \<times> state" where
  "read_value E raw_key s =
     (let key = cache_name E @ '':'' @ raw_key;
          found =
            (case read_from_mem_cache key s of
               Inr pickled_value \<Rightarrow> (Inr pickled_value, s)
             | Inl e \<Rightarrow>
                 (if persist E = Some ''disk''
                  then (case read_from_disk_cache E key s of
                          (Inr pickled_value, s1) \<Rightarrow>
                            (Inr pickled_value, write_to_mem_cache key pickled_value s1)
                        | (Inl e1, s1) \<Rightarrow>
                            (case e1 of
                               CacheKeyNotFoundError msg \<Rightarrow>
                                 (let s2 = emit (Query key) s1 in
                                  case query E key of
                                    Inl qe \<Rightarrow> (Inl qe, s2)
                                  | Inr v \<Rightarrow> write_value E key v s2)
                             | _ \<Rightarrow> (Inl e1, s1)))
                  else (Inl e, s)))
      in case found of
           (Inl e, s') \<Rightarrow> (Inl e, s')
         | (Inr pickled_value, s') \<Rightarrow>
             (case pickle_loads E pickled_value of
                Inr v \<Rightarrow> (Inr v, s')
              | Inl e \<Rightarrow>
                  (if e = UnpicklingError
                   then (Inl (CacheError (''Failed to unpickle '' @ key)), s')
                   else (Inl e, s'))))"



subsection \<open>The cache of utils/cache/s3.py\<close>

text \<open>
  \<^verbatim>\<open>S3QueryCache\<close> names its kind \<^verbatim>\<open>S3Query\<close>, keeps the default \<^verbatim>\<open>persist="disk"\<close> and
  answers every query with the same table of two rows.
\<close>

datatype DataFrame = DataFrame "int list list" "string list"

definition s3_frame :: DataFrame where
  "s3_frame = DataFrame [[1, 2, 3], [4, 5, 6]] [''a'', ''b'', ''c'']"

definition s3_query :: "string \<Rightarrow> exn + DataFrame" where
  "s3_query key = Inr s3_frame"

text \<open>
  A stand-in for \<^verbatim>\<open>pickle\<close> on the one table, to run the model on concrete inputs. The
  theorems below hold for every \<open>pickle_dumps\<close> and \<open>pickle_loads\<close>.
\<close>

definition s3_pickle :: bytes where
  "s3_pickle = [128, 4, 149]"

definition s3_dumps :: "DataFrame \<Rightarrow> exn + bytes" where
  "s3_dumps v = (if v = s3_frame then Inr s3_pickle else Inl PicklingError)"

definition s3_loads :: "bytes \<Rightarrow> exn + DataFrame" where
  "s3_loads bs = (if bs = s3_pickle then Inr s3_frame else Inl UnpicklingError)"

definition no_fault :: "string \<Rightarrow> bool" where
  "no_fault p = False"

definition fault_at :: "string \<Rightarrow> string \<Rightarrow> bool" where
  "fault_at p q = (q = p)"

definition no_write_fault :: "string \<Rightarrow> write_fault option" where
  "no_write_fault p = None"

definition write_fault_at :: "string \<Rightarrow> write_fault \<Rightarrow> string \<Rightarrow> write_fault option" where
  "write_fault_at p f q = (if q = p then Some f else None)"

definition S3QueryCache :: "DataFrame cache_env" where
  "S3QueryCache =
     \<lparr>cache_name = ''S3Query'', persist = Some ''disk'', query = s3_query,
      pickle_dumps = s3_dumps, pickle_loads = s3_loads,
      CACHE_PATH = None, getcwd = ''/app'',
      read_fault = no_fault, write_fault = no_write_fault,
      remove_fault = no_fault, makedirs_fault = no_fault\<rparr>"

text \<open>The same cache built with \<^verbatim>\<open>persist=None\<close>.\<close>

definition S3QueryCache_mem_only :: "DataFrame cache_env" where
  "S3QueryCache_mem_only = S3QueryCache\<lparr>persist := None\<rparr>"

text \<open>
  The same cache on a file system that fails at the file of key \<^verbatim>\<open>a\<close>: a write that
  leaves an empty file behind (a full disk), the same in a directory that also refuses
  removals, a file that cannot be read, and a file that cannot be removed.
\<close>

definition S3QueryCache_disk_full :: "DataFrame cache_env" where
  "S3QueryCache_disk_full =
     S3QueryCache\<lparr>write_fault :=
       write_fault_at ''/app/cache/S3Query/a.memo'' (UtilError (Some []))\<rparr>"

definition S3QueryCache_stuck_file :: "DataFrame cache_env" where
  "S3QueryCache_stuck_file =
     S3QueryCache\<lparr>write_fault :=
       write_fault_at ''/app/cache/S3Query/a.memo'' (UtilError (Some [])),
       remove_fault := fault_at ''/app/cache/S3Query/a.memo''\<rparr>"






text \<open>A new cache object in an empty directory.\<close>

definition fresh :: state where
  "fresh = \<lparr>mem_cache = [], files = Map.empty, dirs = {}, trace = []\<rparr>"


text \<open>The same file with an empty memory tier, and a file that holds no pickle.\<close>

definition disk_only_a :: state where
  "disk_only_a =
     \<lparr>mem_cache = [],
      files = [''/app/cache/S3Query/a.memo'' \<mapsto> s3_pickle],
      dirs = {''/app/cache/S3Query''},
      trace = []\<rparr>"

definition corrupt_a :: state where
  "corrupt_a =
     \<lparr>mem_cache = [],
      files = [''/app/cache/S3Query/a.memo'' \<mapsto> [0]],
      dirs = {''/app/cache/S3Query''},
      trace = []\<rparr>"

subsection \<open>Notions the properties are stated with\<close>

text \<open>The directory \<^verbatim>\<open>_get_file_path\<close> looks for, and creates when missing.\<close>

definition kind_dir :: "'v cache_env \<Rightarrow> string \<Rightarrow> string" where
  "kind_dir E value_key =
     path_join (case CACHE_PATH E of None \<Rightarrow> ''./cache'' | Some r \<Rightarrow> r)
       (takeWhile (\<lambda>x. x \<noteq> CHR '':'') value_key)"

text \<open>The path \<^verbatim>\<open>_get_file_path\<close> returns for a key, when it returns one.\<close>

definition memo_path :: "'v cache_env \<Rightarrow> string \<Rightarrow> string option" where
  "memo_path E value_key =
     (case split_maxsplit1 CHR '':'' value_key of
        [dir, file_name] \<Rightarrow>
          Some (abspath (getcwd E)
                  (path_join
                     (path_join (case CACHE_PATH E of None \<Rightarrow> ''./cache'' | Some r \<Rightarrow> r) dir)
                     (file_name @ ''.memo'')))
      | _ \<Rightarrow> None)"




text \<open>The keys \<^verbatim>\<open>query\<close> was called with, and the paths \<^verbatim>\<open>os.remove\<close> was called with.\<close>

fun queries :: "event list \<Rightarrow> string list" where
  "queries [] = []"
| "queries (Query k # evs) = k # queries evs"
| "queries (ev # evs) = queries evs"

fun removals :: "event list \<Rightarrow> string list" where
  "removals [] = []"
| "removals (DiskRemove p # evs) = p # removals evs"
| "removals (ev # evs) = removals evs"


section \<open>Properties\<close>

subsection \<open>Helper lemmas\<close>

lemmas path_defs =
  split_maxsplit1_def path_join_def startswith_def endswith_def abspath_def normpath_def
  normpath_step_def

lemma memo_path_no_colon: "CHR '':'' \<notin> set key \<Longrightarrow> memo_path E key = None"
  by (simp add: memo_path_def split_maxsplit1_def)

lemma memo_path_colon:
  "CHR '':'' \<in> set key \<Longrightarrow>
   memo_path E key =
     Some (abspath (getcwd E)
       (path_join (kind_dir E key) (tl (dropWhile (\<lambda>x. x \<noteq> CHR '':'') key) @ ''.memo'')))"
  by (simp add: memo_path_def split_maxsplit1_def kind_dir_def)

lemma memo_path_Some_colon: "memo_path E key = Some p \<Longrightarrow> CHR '':'' \<in> set key"
  by (rule ccontr) (simp add: memo_path_no_colon)

lemma get_file_path_no_colon:
  "CHR '':'' \<notin> set key \<Longrightarrow> get_file_path E key s = (Inl ValueError, s)"
  by (simp add: get_file_path_def split_maxsplit1_def)

lemma get_file_path_colon:
  "memo_path E key = Some p \<Longrightarrow>
   get_file_path E key s =
     (if path_exists E s (kind_dir E key) then (Inr p, s)
      else if makedirs_fault E (kind_dir E key)
           then (Inl OSError, emit (Makedirs (kind_dir E key)) s)
           else (Inr p, (emit (Makedirs (kind_dir E key)) s)
                   \<lparr>dirs := insert (abspath (getcwd E) (kind_dir E key)) (dirs s)\<rparr>))"
proof -
  assume a: "memo_path E key = Some p"
  then have c: "CHR '':'' \<in> set key" by (rule memo_path_Some_colon)
  from a c show ?thesis
    by (simp add: memo_path_colon get_file_path_def split_maxsplit1_def kind_dir_def
        makedirs_def emit_def Let_def)
qed

lemma get_file_path_cases:
  "get_file_path E key s = (r, s1) \<Longrightarrow>
     (r = Inl ValueError \<and> s1 = s \<and> memo_path E key = None)
   \<or> (\<exists>p. memo_path E key = Some p \<and> r = Inr p \<and> s1 = s \<and> path_exists E s (kind_dir E key))
   \<or> (\<exists>p. memo_path E key = Some p \<and> r = Inl OSError \<and> s1 = emit (Makedirs (kind_dir E key)) s)
   \<or> (\<exists>p. memo_path E key = Some p \<and> r = Inr p
          \<and> s1 = (emit (Makedirs (kind_dir E key)) s)
                   \<lparr>dirs := insert (abspath (getcwd E) (kind_dir E key)) (dirs s)\<rparr>)"
proof (cases "memo_path E key")
  case None
  then have "CHR '':'' \<notin> set key" using memo_path_colon [of key E] by auto
  then show "get_file_path E key s = (r, s1) \<Longrightarrow> ?thesis"
    using None by (simp add: get_file_path_no_colon)
next
  case (Some p)
  then show "get_file_path E key s = (r, s1) \<Longrightarrow> ?thesis"
    by (auto simp: get_file_path_colon split: if_splits)
qed

lemma get_file_path_keeps:
  "get_file_path E key s = (r, s1) \<Longrightarrow> mem_cache s1 = mem_cache s \<and> files s1 = files s"
  by (drule get_file_path_cases) (auto simp: emit_def)



lemma queries_append: "queries (xs @ ys) = queries xs @ queries ys"
  by (induction xs rule: queries.induct) auto

lemma removals_append: "removals (xs @ ys) = removals xs @ removals ys"
  by (induction xs rule: removals.induct) auto

lemma get_file_path_queries:
  "get_file_path E key s = (r, s1) \<Longrightarrow> queries (trace s1) = queries (trace s)"
  by (drule get_file_path_cases) (auto simp: emit_def queries_append)





lemma read_from_disk_cache_queries:
  "read_from_disk_cache E key s = (r, s1) \<Longrightarrow> queries (trace s1) = queries (trace s)"
  by (auto simp: read_from_disk_cache_def emit_def Let_def queries_append
           dest: get_file_path_queries
           split: prod.splits sum.splits read_outcome.splits)

lemma write_to_disk_cache_queries:
  "write_to_disk_cache E key b s = (r, s1) \<Longrightarrow> queries (trace s1) = queries (trace s)"
  by (auto simp: write_to_disk_cache_def emit_def Let_def queries_append os_remove_def
           dest: get_file_path_queries
           split: prod.splits sum.splits option.splits write_fault.splits if_splits)

lemma write_to_disk_cache_mem:
  "write_to_disk_cache E key b s = (r, s1) \<Longrightarrow> mem_cache s1 = mem_cache s"
  by (auto simp: write_to_disk_cache_def emit_def Let_def os_remove_def
           dest: get_file_path_keeps
           split: prod.splits sum.splits option.splits write_fault.splits if_splits)

lemma write_value_queries:
  "write_value E key v s = (r, s1) \<Longrightarrow> queries (trace s1) = queries (trace s)"
  by (auto simp: write_value_def write_to_mem_cache_def Let_def
           dest: write_to_disk_cache_queries
           split: prod.splits sum.splits if_splits)

lemma map_of_write_to_mem_cache:
  "map_of (mem_cache (write_to_mem_cache key b s)) = (map_of (mem_cache s))(key \<mapsto> b)"
proof
  fix k
  have "map_of (filter (\<lambda>kv. fst kv \<noteq> key) xs @ [(key, b)]) k = ((map_of xs)(key \<mapsto> b)) k" for xs
    by (induction xs) (auto simp: map_add_def split: option.splits)
  then show "map_of (mem_cache (write_to_mem_cache key b s)) k = ((map_of (mem_cache s))(key \<mapsto> b)) k"
    by (simp add: write_to_mem_cache_def)
qed

lemma write_value_mem:
  "pickle_dumps E v = Inr b \<Longrightarrow>
   map_of (mem_cache (snd (write_value E key v s))) key = Some b"
  by (auto simp: write_value_def Let_def map_of_write_to_mem_cache
           dest: write_to_disk_cache_mem
           split: prod.splits sum.splits)

lemma read_value_mem_hit:
  "map_of (mem_cache s) (cache_name E @ '':'' @ k) = Some b \<Longrightarrow>
   read_value E k s =
     (case pickle_loads E b of
        Inr v \<Rightarrow> (Inr v, s)
      | Inl e \<Rightarrow> (if e = UnpicklingError
                   then (Inl (CacheError (''Failed to unpickle '' @ cache_name E @ '':'' @ k)), s)
                   else (Inl e, s)))"
  by (simp add: read_value_def read_from_mem_cache_def split: sum.splits)


lemma second_try_snd:
  "snd (case found of
          (Inl e, s') \<Rightarrow> (Inl e, s')
        | (Inr pv, s') \<Rightarrow>
            (case pickle_loads E pv of
               Inr v \<Rightarrow> (Inr v, s')
             | Inl e \<Rightarrow> (if e = UnpicklingError then (Inl (CacheError m), s') else (Inl e, s'))))
   = snd found"
  by (auto split: prod.splits sum.splits)

lemma read_value_disk_hit:
  assumes "persist E = Some ''disk''"
    and "map_of (mem_cache s) (cache_name E @ '':'' @ k) = None"
    and "read_from_disk_cache E (cache_name E @ '':'' @ k) s = (Inr b, s1)"
  shows "read_value E k s =
     (case pickle_loads E b of
        Inr v \<Rightarrow> (Inr v, write_to_mem_cache (cache_name E @ '':'' @ k) b s1)
      | Inl e \<Rightarrow>
          (if e = UnpicklingError
           then (Inl (CacheError (''Failed to unpickle '' @ cache_name E @ '':'' @ k)),
                 write_to_mem_cache (cache_name E @ '':'' @ k) b s1)
           else (Inl e, write_to_mem_cache (cache_name E @ '':'' @ k) b s1)))"
  using assms by (simp add: read_value_def read_from_mem_cache_def Let_def split: sum.splits)

lemma read_value_both_miss:
  assumes "persist E = Some ''disk''"
    and "map_of (mem_cache s) (cache_name E @ '':'' @ k) = None"
    and "read_from_disk_cache E (cache_name E @ '':'' @ k) s = (Inl (CacheKeyNotFoundError m), s1)"
  shows "read_value E k s =
     (case (case query E (cache_name E @ '':'' @ k) of
              Inl qe \<Rightarrow> (Inl qe, emit (Query (cache_name E @ '':'' @ k)) s1)
            | Inr v \<Rightarrow> write_value E (cache_name E @ '':'' @ k) v
                         (emit (Query (cache_name E @ '':'' @ k)) s1)) of
        (Inl e, s') \<Rightarrow> (Inl e, s')
      | (Inr pv, s') \<Rightarrow>
          (case pickle_loads E pv of
             Inr v \<Rightarrow> (Inr v, s')
           | Inl e \<Rightarrow>
               (if e = UnpicklingError
                then (Inl (CacheError (''Failed to unpickle '' @ cache_name E @ '':'' @ k)), s')
                else (Inl e, s'))))"
  using assms
  by (simp add: read_value_def read_from_mem_cache_def Let_def split: sum.splits prod.splits)


lemma get_file_path_removals:
  "get_file_path E key s = (r, s1) \<Longrightarrow> removals (trace s1) = removals (trace s)"
  by (drule get_file_path_cases) (auto simp: emit_def removals_append)

lemma os_remove_effect:
  "removals (trace (snd (os_remove E p s))) = removals (trace s) @ [p]
   \<and> mem_cache (snd (os_remove E p s)) = mem_cache s
   \<and> (remove_fault E p \<longrightarrow> files (snd (os_remove E p s)) = files s)
   \<and> (\<not> remove_fault E p \<longrightarrow> files (snd (os_remove E p s)) = (files s)(p := None))"
  by (auto simp: os_remove_def emit_def Let_def removals_append split: option.splits)
















subsection \<open>Splitting, joining and normalising paths\<close>


















subsection \<open>The model on concrete inputs\<close>

lemma memo_path_S3_a [simp]:
  "memo_path S3QueryCache ''S3Query:a'' = Some ''/app/cache/S3Query/a.memo''"
  by (simp add: memo_path_def S3QueryCache_def path_defs)

lemma kind_dir_S3_a [simp]: "kind_dir S3QueryCache ''S3Query:a'' = ''./cache/S3Query''"
  by (simp add: kind_dir_def S3QueryCache_def path_defs)

lemma abspath_S3_dir [simp]: "abspath ''/app'' ''./cache/S3Query'' = ''/app/cache/S3Query''"
  by (simp add: path_defs)

lemma S3_fields [simp]:
  "cache_name S3QueryCache = ''S3Query''" "persist S3QueryCache = Some ''disk''"
  "getcwd S3QueryCache = ''/app''" "query S3QueryCache = s3_query"
  "pickle_dumps S3QueryCache = s3_dumps" "pickle_loads S3QueryCache = s3_loads"
  "read_fault S3QueryCache = no_fault" "write_fault S3QueryCache = no_write_fault"
  "remove_fault S3QueryCache = no_fault" "makedirs_fault S3QueryCache = no_fault"
  by (simp_all add: S3QueryCache_def)

lemma disk_miss_fresh:
  "read_from_disk_cache S3QueryCache ''S3Query:a'' fresh =
     (Inl (CacheKeyNotFoundError ''Key not found in disk cache''),
      fresh\<lparr>dirs := {''/app/cache/S3Query''},
            trace := [Makedirs ''./cache/S3Query'', DiskRead ''/app/cache/S3Query/a.memo'']\<rparr>)"
  by (simp add: read_from_disk_cache_def get_file_path_colon path_exists_def emit_def
      streamlit_read_def no_fault_def fresh_def Let_def)


lemma read_a_fresh:
  "read_value S3QueryCache ''a'' fresh =
     (Inr s3_frame,
      \<lparr>mem_cache = [(''S3Query:a'', s3_pickle)],
       files = [''/app/cache/S3Query/a.memo'' \<mapsto> s3_pickle],
       dirs = {''/app/cache/S3Query''},
       trace = [Makedirs ''./cache/S3Query'', DiskRead ''/app/cache/S3Query/a.memo'',
                Query ''S3Query:a'', DiskWrite ''/app/cache/S3Query/a.memo'']\<rparr>)"
  by (simp add: read_value_def read_from_mem_cache_def read_from_disk_cache_def
      get_file_path_colon path_exists_def emit_def streamlit_read_def no_fault_def
      no_write_fault_def fresh_def Let_def write_value_def write_to_mem_cache_def
      write_to_disk_cache_def s3_query_def s3_dumps_def s3_loads_def)

lemma stuck_path:
  "get_file_path S3QueryCache_stuck_file ''S3Query:a'' disk_only_a
     = (Inr ''/app/cache/S3Query/a.memo'', disk_only_a)"
  by (simp add: get_file_path_def S3QueryCache_stuck_file_def S3QueryCache_def path_defs
      path_exists_def disk_only_a_def)

lemma full_path:
  "get_file_path S3QueryCache_disk_full ''S3Query:a'' disk_only_a
     = (Inr ''/app/cache/S3Query/a.memo'', disk_only_a)"
  by (simp add: get_file_path_def S3QueryCache_disk_full_def S3QueryCache_def path_defs
      path_exists_def disk_only_a_def)








subsection \<open>Reading without disk persistence\<close>

text \<open>
  C1, as amended. When \<^verbatim>\<open>persist\<close> is not \<^verbatim>\<open>"disk"\<close> and the memory tier does not hold
  the key, \<^verbatim>\<open>read_value\<close> raises \<^verbatim>\<open>CacheKeyNotFoundError\<close> to its caller and changes
  nothing: \<^verbatim>\<open>query\<close> is not called and neither tier is written.
\<close>

theorem C1_memory_miss_without_disk:
  assumes "persist E \<noteq> Some ''disk''"
    and "map_of (mem_cache s) (cache_name E @ '':'' @ k) = None"
  shows "read_value E k s = (Inl (CacheKeyNotFoundError ''Key not found in mem cache''), s)"
  using assms by (simp add: read_value_def read_from_mem_cache_def)

theorem C1_memory_miss_without_disk_witness:
  "persist S3QueryCache_mem_only \<noteq> Some ''disk''
   \<and> map_of (mem_cache fresh) (cache_name S3QueryCache_mem_only @ '':'' @ ''a'') = None
   \<and> read_value S3QueryCache_mem_only ''a'' fresh
       = (Inl (CacheKeyNotFoundError ''Key not found in mem cache''), fresh)"
proof -
  have h1: "persist S3QueryCache_mem_only \<noteq> Some ''disk''"
    by (simp add: S3QueryCache_mem_only_def)
  have h2: "map_of (mem_cache fresh) (cache_name S3QueryCache_mem_only @ '':'' @ ''a'') = None"
    by (simp add: fresh_def)
  from C1_memory_miss_without_disk [OF h1 h2] h1 h2 show ?thesis by blast
qed

text \<open>
  C1 as the specification states it fails: the source of \<open>S3QueryCache_mem_only\<close> answers
  every key, and still a read of a key the memory tier misses ends in
  \<^verbatim>\<open>CacheKeyNotFoundError\<close>, with no query in the trace and nothing stored in memory.
\<close>

theorem C1_counterexample:
  "query S3QueryCache_mem_only ''S3Query:a'' = Inr s3_frame
   \<and> fst (read_value S3QueryCache_mem_only ''a'' fresh)
       = Inl (CacheKeyNotFoundError ''Key not found in mem cache'')
   \<and> queries (trace (snd (read_value S3QueryCache_mem_only ''a'' fresh))) = []
   \<and> mem_cache (snd (read_value S3QueryCache_mem_only ''a'' fresh)) = []"
  by (simp add: S3QueryCache_mem_only_def S3QueryCache_def s3_query_def fresh_def
      read_value_def read_from_mem_cache_def)

subsection \<open>Round trip\<close>

text \<open>
  C5. For a value \<open>v\<close> that pickles to bytes which unpickle to \<open>v\<close>, and a key \<open>k\<close>: after
  the write-through of \<open>v\<close> under the key of \<open>k\<close> (\<^verbatim>\<open>_write_value\<close>, whether or not its disk
  write succeeded), \<^verbatim>\<open>read_value(k)\<close> returns \<open>v\<close> and leaves the state as it is.
\<close>

theorem C5_round_trip:
  assumes "pickle_dumps E v = Inr b" and "pickle_loads E b = Inr v"
  shows "read_value E k (snd (write_value E (cache_name E @ '':'' @ k) v s))
           = (Inr v, snd (write_value E (cache_name E @ '':'' @ k) v s))"
  using assms write_value_mem [OF assms(1), of "cache_name E @ '':'' @ k" s]
  by (simp add: read_value_mem_hit)

theorem C5_round_trip_witness:
  "pickle_dumps S3QueryCache s3_frame = Inr s3_pickle
   \<and> pickle_loads S3QueryCache s3_pickle = Inr s3_frame
   \<and> read_value S3QueryCache ''a''
        (snd (write_value S3QueryCache (cache_name S3QueryCache @ '':'' @ ''a'') s3_frame fresh))
       = (Inr s3_frame,
          snd (write_value S3QueryCache (cache_name S3QueryCache @ '':'' @ ''a'') s3_frame fresh))"
proof -
  have h1: "pickle_dumps S3QueryCache s3_frame = Inr s3_pickle"
    by (simp add: S3QueryCache_def s3_dumps_def)
  have h2: "pickle_loads S3QueryCache s3_pickle = Inr s3_frame"
    by (simp add: S3QueryCache_def s3_loads_def)
  from C5_round_trip [OF h1 h2] h1 h2 show ?thesis by blast
qed

subsection \<open>The key the source is asked for\<close>

text \<open>
  C3, as amended. With \<^verbatim>\<open>persist == "disk"\<close>, when the memory tier and the disk tier both
  miss, \<^verbatim>\<open>read_value\<close> calls \<^verbatim>\<open>query\<close> exactly once in that resolution, and with the
  namespaced key \<^verbatim>\<open>"{cache_name}:{k}"\<close>: the method rebinds \<^verbatim>\<open>key\<close> before anything
  else, so the raw key is never passed on.
\<close>

theorem C3_query_gets_namespaced_key_once:
  assumes "persist E = Some ''disk''"
    and "map_of (mem_cache s) (cache_name E @ '':'' @ k) = None"
    and "read_from_disk_cache E (cache_name E @ '':'' @ k) s = (Inl (CacheKeyNotFoundError m), s1)"
  shows "queries (trace (snd (read_value E k s))) = queries (trace s) @ [cache_name E @ '':'' @ k]"
proof -
  let ?key = "cache_name E @ '':'' @ k"
  let ?s2 = "emit (Query ?key) s1"
  have q1: "queries (trace s1) = queries (trace s)"
    using assms(3) by (rule read_from_disk_cache_queries)
  have q2: "queries (trace ?s2) = queries (trace s) @ [?key]"
    by (simp add: emit_def queries_append q1)
  have "snd (read_value E k s) =
        snd (case query E ?key of Inl qe \<Rightarrow> (Inl qe, ?s2) | Inr v \<Rightarrow> write_value E ?key v ?s2)"
    by (simp only: read_value_both_miss [OF assms] second_try_snd)
  moreover have "queries (trace (snd (case query E ?key of
                    Inl qe \<Rightarrow> (Inl qe, ?s2) | Inr v \<Rightarrow> write_value E ?key v ?s2)))
                 = queries (trace ?s2)"
  proof (cases "query E ?key")
    case (Inl qe)
    then show ?thesis by simp
  next
    case (Inr v)
    obtain r s3 where w: "write_value E ?key v ?s2 = (r, s3)"
      by (cases "write_value E ?key v ?s2")
    from write_value_queries [OF w] Inr w show ?thesis by simp
  qed
  ultimately show ?thesis using q2 by simp
qed


theorem C3_query_gets_namespaced_key_once_witness:
  "persist S3QueryCache = Some ''disk''
   \<and> map_of (mem_cache fresh) (cache_name S3QueryCache @ '':'' @ ''a'') = None
   \<and> read_from_disk_cache S3QueryCache (cache_name S3QueryCache @ '':'' @ ''a'') fresh =
       (Inl (CacheKeyNotFoundError ''Key not found in disk cache''),
        fresh\<lparr>dirs := {''/app/cache/S3Query''},
              trace := [Makedirs ''./cache/S3Query'', DiskRead ''/app/cache/S3Query/a.memo'']\<rparr>)
   \<and> queries (trace (snd (read_value S3QueryCache ''a'' fresh)))
       = queries (trace fresh) @ [cache_name S3QueryCache @ '':'' @ ''a'']"
proof -
  have h1: "persist S3QueryCache = Some ''disk''" by simp
  have h2: "map_of (mem_cache fresh) (cache_name S3QueryCache @ '':'' @ ''a'') = None"
    by (simp add: fresh_def)
  have h3: "read_from_disk_cache S3QueryCache (cache_name S3QueryCache @ '':'' @ ''a'') fresh =
       (Inl (CacheKeyNotFoundError ''Key not found in disk cache''),
        fresh\<lparr>dirs := {''/app/cache/S3Query''},
              trace := [Makedirs ''./cache/S3Query'', DiskRead ''/app/cache/S3Query/a.memo'']\<rparr>)"
    using disk_miss_fresh by simp
  from C3_query_gets_namespaced_key_once [OF h1 h2 h3] h1 h2 h3 show ?thesis by blast
qed

text \<open>
  C3 as the specification states it fails: on a new cache the one query of
  \<^verbatim>\<open>read_value("a")\<close> is for \<^verbatim>\<open>"S3Query:a"\<close>, not for \<^verbatim>\<open>"a"\<close>.
\<close>

theorem C3_counterexample:
  "map_of (mem_cache fresh) ''S3Query:a'' = None
   \<and> files fresh ''/app/cache/S3Query/a.memo'' = None
   \<and> queries (trace (snd (read_value S3QueryCache ''a'' fresh))) = [''S3Query:a'']"
  by (simp add: read_a_fresh) (simp add: fresh_def)


subsection \<open>The order of resolution\<close>



subsection \<open>Undecodable bytes from disk\<close>

text \<open>
  C10. On a memory miss, bytes read from disk are stored in the memory tier before they
  are unpickled. If unpickling fails, \<^verbatim>\<open>read_value\<close> raises the error and the bytes stay
  in the memory tier; every later read in a state whose memory tier still holds these
  bytes for the key fails in the same way and leaves the state untouched, so neither the
  disk nor the source is consulted.
\<close>

theorem C10_undecodable_bytes_stay_in_memory:
  assumes "persist E = Some ''disk''"
    and "map_of (mem_cache s) (cache_name E @ '':'' @ k) = None"
    and "read_from_disk_cache E (cache_name E @ '':'' @ k) s = (Inr b, s1)"
    and "pickle_loads E b = Inl e"
  shows "read_value E k s =
           (Inl (if e = UnpicklingError
                 then CacheError (''Failed to unpickle '' @ cache_name E @ '':'' @ k) else e),
            write_to_mem_cache (cache_name E @ '':'' @ k) b s1)
         \<and> map_of (mem_cache (snd (read_value E k s))) (cache_name E @ '':'' @ k) = Some b
         \<and> (\<forall>t. map_of (mem_cache t) (cache_name E @ '':'' @ k) = Some b \<longrightarrow>
                read_value E k t =
                  (Inl (if e = UnpicklingError
                        then CacheError (''Failed to unpickle '' @ cache_name E @ '':'' @ k)
                        else e), t))"
proof -
  have r: "read_value E k s =
           (Inl (if e = UnpicklingError
                 then CacheError (''Failed to unpickle '' @ cache_name E @ '':'' @ k) else e),
            write_to_mem_cache (cache_name E @ '':'' @ k) b s1)"
    using assms by (simp add: read_value_disk_hit)
  have m: "map_of (mem_cache (snd (read_value E k s))) (cache_name E @ '':'' @ k) = Some b"
    by (simp add: r map_of_write_to_mem_cache)
  have l: "read_value E k t =
             (Inl (if e = UnpicklingError
                   then CacheError (''Failed to unpickle '' @ cache_name E @ '':'' @ k)
                   else e), t)"
    if "map_of (mem_cache t) (cache_name E @ '':'' @ k) = Some b" for t
    using that assms(4) by (simp add: read_value_mem_hit)
  from r m l show ?thesis by blast
qed

theorem C10_undecodable_bytes_stay_in_memory_witness:
  "persist S3QueryCache = Some ''disk''
   \<and> map_of (mem_cache corrupt_a) (cache_name S3QueryCache @ '':'' @ ''a'') = None
   \<and> read_from_disk_cache S3QueryCache (cache_name S3QueryCache @ '':'' @ ''a'') corrupt_a
       = (Inr [0], corrupt_a\<lparr>trace := [DiskRead ''/app/cache/S3Query/a.memo'']\<rparr>)
   \<and> pickle_loads S3QueryCache [0] = Inl UnpicklingError
   \<and> fst (read_value S3QueryCache ''a'' corrupt_a)
       = Inl (CacheError (''Failed to unpickle '' @ cache_name S3QueryCache @ '':'' @ ''a''))
   \<and> map_of (mem_cache (snd (read_value S3QueryCache ''a'' corrupt_a)))
        (cache_name S3QueryCache @ '':'' @ ''a'') = Some [0]
   \<and> read_value S3QueryCache ''a'' (snd (read_value S3QueryCache ''a'' corrupt_a))
       = (Inl (CacheError (''Failed to unpickle '' @ cache_name S3QueryCache @ '':'' @ ''a'')),
          snd (read_value S3QueryCache ''a'' corrupt_a))"
proof -
  let ?E = S3QueryCache
  let ?key = "cache_name S3QueryCache @ '':'' @ ''a''"
  let ?s1 = "corrupt_a\<lparr>trace := [DiskRead ''/app/cache/S3Query/a.memo'']\<rparr>"
  have h1: "persist ?E = Some ''disk''" by simp
  have h2: "map_of (mem_cache corrupt_a) ?key = None" by (simp add: corrupt_a_def)
  have h3: "read_from_disk_cache ?E ?key corrupt_a = (Inr [0], ?s1)"
    by (simp add: read_from_disk_cache_def get_file_path_colon path_exists_def emit_def
        streamlit_read_def no_fault_def corrupt_a_def Let_def)
  have h4: "pickle_loads ?E [0] = Inl UnpicklingError" by (simp add: s3_loads_def s3_pickle_def)
  note t = C10_undecodable_bytes_stay_in_memory [OF h1 h2 h3 h4]
  from t have r1: "fst (read_value ?E ''a'' corrupt_a)
                   = Inl (CacheError (''Failed to unpickle '' @ ?key))" by simp
  from t have r2: "map_of (mem_cache (snd (read_value ?E ''a'' corrupt_a))) ?key = Some [0]"
    by blast
  from t r2 have r3: "read_value ?E ''a'' (snd (read_value ?E ''a'' corrupt_a))
       = (Inl (CacheError (''Failed to unpickle '' @ ?key)), snd (read_value ?E ''a'' corrupt_a))"
    by simp
  from h1 h2 h3 h4 r1 r2 r3 show ?thesis by blast
qed

subsection \<open>A disk write that fails\<close>

text \<open>
  C7, as amended. When the write of \<^verbatim>\<open>_write_to_disk_cache\<close> fails with \<^verbatim>\<open>util.Error\<close>,
  the method calls \<^verbatim>\<open>os.remove\<close> on the path once and then raises \<^verbatim>\<open>CacheError\<close>. If that
  removal does not fail, no file is left at the path; if it fails, the failure is swallowed
  and whatever the failed write left at the path stays there.
\<close>

theorem C7_failed_write_cleanup:
  assumes "get_file_path E key s = (Inr p, s1)"
    and "write_fault E p = Some (UtilError left)"
  shows "fst (write_to_disk_cache E key b s) = Inl (CacheError ''Unable to write to cache'')
       \<and> removals (trace (snd (write_to_disk_cache E key b s))) = removals (trace s) @ [p]
       \<and> (\<not> remove_fault E p \<longrightarrow> files (snd (write_to_disk_cache E key b s)) p = None)
       \<and> (remove_fault E p \<longrightarrow> files (snd (write_to_disk_cache E key b s)) p = left)"
proof -
  let ?s3 = "(emit (DiskWrite p) s1)\<lparr>files := (files (emit (DiskWrite p) s1))(p := left)\<rparr>"
  have w: "write_to_disk_cache E key b s
           = (Inl (CacheError ''Unable to write to cache''), snd (os_remove E p ?s3))"
    using assms by (simp add: write_to_disk_cache_def Let_def)
  have t: "removals (trace ?s3) = removals (trace s)"
    using get_file_path_removals [OF assms(1)] by (simp add: emit_def removals_append)
  have f: "files ?s3 p = left" by simp
  from w t f os_remove_effect [of E p ?s3] show ?thesis by auto
qed

theorem C7_failed_write_cleanup_witness:
  "get_file_path S3QueryCache_disk_full ''S3Query:a'' disk_only_a
     = (Inr ''/app/cache/S3Query/a.memo'', disk_only_a)
   \<and> write_fault S3QueryCache_disk_full ''/app/cache/S3Query/a.memo'' = Some (UtilError (Some []))
   \<and> \<not> remove_fault S3QueryCache_disk_full ''/app/cache/S3Query/a.memo''
   \<and> fst (write_to_disk_cache S3QueryCache_disk_full ''S3Query:a'' s3_pickle disk_only_a)
       = Inl (CacheError ''Unable to write to cache'')
   \<and> removals (trace (snd (write_to_disk_cache S3QueryCache_disk_full ''S3Query:a'' s3_pickle
        disk_only_a))) = removals (trace disk_only_a) @ [''/app/cache/S3Query/a.memo'']
   \<and> files (snd (write_to_disk_cache S3QueryCache_disk_full ''S3Query:a'' s3_pickle disk_only_a))
        ''/app/cache/S3Query/a.memo'' = None"
proof -
  have h2: "write_fault S3QueryCache_disk_full ''/app/cache/S3Query/a.memo''
            = Some (UtilError (Some []))"
    by (simp add: S3QueryCache_disk_full_def write_fault_at_def)
  have h3: "\<not> remove_fault S3QueryCache_disk_full ''/app/cache/S3Query/a.memo''"
    by (simp add: S3QueryCache_disk_full_def S3QueryCache_def no_fault_def)
  from C7_failed_write_cleanup [OF full_path h2, of s3_pickle] full_path h2 h3
  show ?thesis by blast
qed

text \<open>
  C7 as the specification states it fails: the write to an existing file fails after the
  file was truncated, the directory refuses the removal, and the empty file stays at the
  path while \<^verbatim>\<open>CacheError\<close> is raised.
\<close>

theorem C7_counterexample:
  "files disk_only_a ''/app/cache/S3Query/a.memo'' = Some s3_pickle
   \<and> fst (write_to_disk_cache S3QueryCache_stuck_file ''S3Query:a'' s3_pickle disk_only_a)
       = Inl (CacheError ''Unable to write to cache'')
   \<and> files (snd (write_to_disk_cache S3QueryCache_stuck_file ''S3Query:a'' s3_pickle disk_only_a))
        ''/app/cache/S3Query/a.memo'' = Some []"
  by (simp add: write_to_disk_cache_def stuck_path Let_def)
     (simp add: S3QueryCache_stuck_file_def write_fault_at_def fault_at_def os_remove_def emit_def
        disk_only_a_def)


subsection \<open>Clearing the cache\<close>




subsection \<open>Memory entries and their files\<close>





subsection \<open>Errors of pickling and unpickling\<close>




subsection \<open>The path of a key\<close>





end
